theory Spec2Isabelle
  imports Complex_Main "HOL-Library.AList" "HOL-Library.Char_ord" "HOL-Library.List_Lexorder"
    "HOL-Library.Multiset"
begin

section \<open>The bulk upload script: remote replies, products and the batch file\<close>

text \<open>
  Every remote call of the scripts is \<open>requests.post\<close> followed by \<open>response.json()\<close>.
  What the caller can observe of it is one of four things: a \<open>RequestException\<close>, any
  other exception, a JSON body with an \<open>errors\<close> key, or a JSON body whose \<open>data\<close>
  member is read.
\<close>

datatype 'a response = RequestError | UnexpectedError | GraphQLErrors | Data 'a

text \<open>
  \<open>get_shopify_product_id(sku)\<close>: \<open>post\<close> is the remote's reply to the tag query for the
  SKU, its payload the ids of \<open>data.products.edges\<close>. Every failure is \<open>None\<close>.
\<close>

definition get_shopify_product_id :: "(string \<Rightarrow> string list response) \<Rightarrow> string \<Rightarrow> string option" where
  "get_shopify_product_id post sku =
     (case post sku of
        RequestError \<Rightarrow> None
      | UnexpectedError \<Rightarrow> None
      | GraphQLErrors \<Rightarrow> None
      | Data products \<Rightarrow> (case products of [] \<Rightarrow> None | node_id # _ \<Rightarrow> Some node_id))"

text \<open>Python's truth value of an optional string: \<open>None\<close> and \<open>''\<close> are false.\<close>

definition truthy :: "string option \<Rightarrow> bool" where
  "truthy x = (case x of None \<Rightarrow> False | Some s \<Rightarrow> s \<noteq> [])"

subsection \<open>\<open>delete_products_from_shopify\<close>\<close>

text \<open>
  The remote catalog is a state \<open>'r\<close> of any type: a lookup reads it, a delete request
  returns its reply and the next state. \<open>log\<close> records the requests sent, in order; the
  two counters are the function's local variables.
\<close>

record delete_data =
  userErrors :: "string list"
  deletedProductId :: "string option"

datatype request = Lookup string | Delete string

record 'r deletion =
  remote :: 'r
  log :: "request list"
  successfully_deleted :: nat
  failed_deletions :: nat

definition count_failed :: "'r deletion \<Rightarrow> 'r deletion" where
  "count_failed st = st\<lparr>failed_deletions := failed_deletions st + 1\<rparr>"

definition count_deleted :: "'r deletion \<Rightarrow> 'r deletion" where
  "count_deleted st = st\<lparr>successfully_deleted := successfully_deleted st + 1\<rparr>"

definition delete_one ::
  "('r \<Rightarrow> string \<Rightarrow> string list response) \<Rightarrow> ('r \<Rightarrow> string \<Rightarrow> delete_data response \<times> 'r) \<Rightarrow>
   string \<Rightarrow> 'r deletion \<Rightarrow> 'r deletion" where
  "delete_one look del sku st =
     (let product_id = get_shopify_product_id (look (remote st)) sku;
          st1 = st\<lparr>log := log st @ [Lookup sku]\<rparr>
      in case product_id of
           None \<Rightarrow> count_failed st1
         | Some pid \<Rightarrow>
             if pid = [] then count_failed st1
             else
               (case del (remote st1) pid of
                  (reply, r') \<Rightarrow>
                    (let st2 = st1\<lparr>remote := r', log := log st1 @ [Delete pid]\<rparr>
                     in case reply of
                          RequestError \<Rightarrow> count_failed st2
                        | UnexpectedError \<Rightarrow> count_failed st2
                        | GraphQLErrors \<Rightarrow> count_failed st2
                        | Data d \<Rightarrow>
                            if userErrors d \<noteq> [] then count_failed st2
                            else if truthy (deletedProductId d) then count_deleted st2
                            else count_failed st2)))"

fun delete_loop ::
  "('r \<Rightarrow> string \<Rightarrow> string list response) \<Rightarrow> ('r \<Rightarrow> string \<Rightarrow> delete_data response \<times> 'r) \<Rightarrow>
   string list \<Rightarrow> 'r deletion \<Rightarrow> 'r deletion" where
  "delete_loop look del [] st = st"
| "delete_loop look del (sku # skus) st = delete_loop look del skus (delete_one look del sku st)"

definition delete_products_from_shopify ::
  "('r \<Rightarrow> string \<Rightarrow> string list response) \<Rightarrow> ('r \<Rightarrow> string \<Rightarrow> delete_data response \<times> 'r) \<Rightarrow>
   string list \<Rightarrow> 'r \<Rightarrow> 'r deletion" where
  "delete_products_from_shopify look del skus_to_delete r =
     (let st0 = \<lparr>remote = r, log = [], successfully_deleted = 0, failed_deletions = 0\<rparr>
      in if skus_to_delete = [] then st0 else delete_loop look del skus_to_delete st0)"

subsection \<open>Scraped products and the JSON lines\<close>

record variant =
  vname :: string
  upc :: string
  quantity :: int

record product =
  sku :: string
  name :: string
  price :: string
  variants :: "variant list"
  images :: "string list"
  description :: string
  previousPrice :: string
  originalCost :: string
  gender :: string
  productType :: string
  brand :: string

datatype json = JStr string | JInt int | JBool bool | JNull | JList "json list"
  | JObj "(string \<times> json) list"

text \<open>
  A Python float is a double: a finite value, an infinity or a NaN. \<open>>\<close> compares the
  values the doubles have, so it is exact on them, and a NaN compares false with
  everything. Python compares a float with the int \<open>0\<close> by value as well.
\<close>

datatype pyfloat = Finite real | PosInf | NegInf | NaN

type_synonym float_fun = "string \<Rightarrow> pyfloat option"

fun float_gt :: "pyfloat \<Rightarrow> pyfloat \<Rightarrow> bool" where
  "float_gt (Finite a) (Finite b) = (a > b)"
| "float_gt PosInf (Finite b) = True"
| "float_gt PosInf NegInf = True"
| "float_gt (Finite a) NegInf = True"
| "float_gt x y = False"

text \<open>
  \<open>float(x or 0)\<close>. The builtin \<open>float\<close> on strings is the parameter \<open>fl\<close> of the
  model: \<open>fl s\<close> is the double \<open>float(s)\<close> returns, rounding included, and \<open>None\<close>
  when it raises \<open>ValueError\<close>. The empty string is false, so the int \<open>0\<close> is
  converted instead, to \<open>0.0\<close>. Either exception leaves \<open>is_discounted\<close> false.
\<close>

definition float_or_0 :: "float_fun \<Rightarrow> string \<Rightarrow> pyfloat option" where
  "float_or_0 fl x = (if x = [] then Some (Finite 0) else fl x)"

definition is_discounted :: "float_fun \<Rightarrow> product \<Rightarrow> bool" where
  "is_discounted fl p =
     (case float_or_0 fl (price p) of
        None \<Rightarrow> False
      | Some price_val \<Rightarrow>
          (case float_or_0 fl (previousPrice p) of
             None \<Rightarrow> False
           | Some prev_val \<Rightarrow>
               float_gt prev_val (Finite 0) \<and> float_gt price_val (Finite 0)
               \<and> float_gt prev_val price_val))"

definition base_tags :: "float_fun \<Rightarrow> product \<Rightarrow> string list" where
  "base_tags fl p =
     (let tags = [''uploaded_by_script'', ''nz-prod'', ''sku:'' @ sku p, ''new'',
                  gender p, productType p, brand p]
      in if is_discounted fl p then tags @ [''discounted''] else tags)"

text \<open>\<open>str\<close> of a non-negative int, for the image index of \<open>enumerate(images, 1)\<close>.\<close>

fun str_nat :: "nat \<Rightarrow> string" where
  "str_nat n =
     (if n < 10 then [char_of (48 + n)] else str_nat (n div 10) @ [char_of (48 + n mod 10)])"

text \<open>\<open>s.split(sep)[0]\<close>: the text before the first separator.\<close>

definition split_first :: "char \<Rightarrow> string \<Rightarrow> string" where
  "split_first sep s = takeWhile (\<lambda>c. c \<noteq> sep) s"

definition compareAtPrice :: "product \<Rightarrow> string" where
  "compareAtPrice p = (if previousPrice p \<noteq> [] then previousPrice p else ''0'')"

definition productOptions :: "product \<Rightarrow> json" where
  "productOptions p =
     JList [JObj [(''name'', JStr ''Size''),
                  (''values'', JList (map (\<lambda>v. JObj [(''name'', JStr (vname v))]) (variants p)))]]"

definition inventoryItem :: "product \<Rightarrow> json" where
  "inventoryItem p = JObj [(''tracked'', JBool True), (''cost'', JStr (originalCost p))]"

definition optionValues :: "variant \<Rightarrow> json" where
  "optionValues v = JList [JObj [(''optionName'', JStr ''Size''), (''name'', JStr (vname v))]]"

definition inventoryQuantities :: "variant \<Rightarrow> json" where
  "inventoryQuantities v =
     JList [JObj [(''quantity'', JInt (quantity v)),
                  (''locationId'', JStr ''gid://shopify/Location/78755004615''),
                  (''name'', JStr ''available'')]]"

definition update_variant :: "product \<Rightarrow> variant \<Rightarrow> json" where
  "update_variant p v =
     JObj [(''price'', JStr (price p)),
           (''sku'', JStr (split_first (CHR ''_'') (sku p))),
           (''barcode'', JStr (upc v)),
           (''compareAtPrice'', JStr (compareAtPrice p)),
           (''inventoryItem'', inventoryItem p),
           (''optionValues'', optionValues v),
           (''inventoryQuantities'', inventoryQuantities v)]"

definition create_variant :: "product \<Rightarrow> variant \<Rightarrow> json" where
  "create_variant p v =
     JObj [(''price'', JStr (price p)),
           (''sku'', JStr (split_first (CHR ''_'') (sku p))),
           (''barcode'', JStr (upc v)),
           (''compareAtPrice'', JStr (compareAtPrice p)),
           (''inventoryItem'', inventoryItem p),
           (''inventoryQuantities'', inventoryQuantities v),
           (''optionValues'', optionValues v)]"

definition files :: "string \<Rightarrow> product \<Rightarrow> json" where
  "files label p =
     JList (map (\<lambda>(index, img).
                   JObj [(''alt'', JStr (name p @ '' image'')),
                         (''originalSource'', JStr (split_first (CHR ''?'') img)),
                         (''filename'', JStr (name p @ label @ str_nat index))])
                (zip [1 ..< Suc (length (images p))] (images p)))"

definition update_line :: "float_fun \<Rightarrow> string \<Rightarrow> product \<Rightarrow> json" where
  "update_line fl shopify_id p =
     JObj [(''input'',
            JObj [(''id'', JStr shopify_id),
                  (''tags'', JList (map JStr (base_tags fl p))),
                  (''productOptions'', productOptions p),
                  (''variants'', JList (map (update_variant p) (variants p))),
                  (''files'', files ''-LUZActive-Image-'' p)])]"

definition create_line :: "float_fun \<Rightarrow> product \<Rightarrow> json" where
  "create_line fl p =
     JObj [(''input'',
            JObj [(''title'', JStr (name p)),
                  (''status'', JStr ''DRAFT''),
                  (''productType'', JStr (productType p)),
                  (''tags'', JList (map JStr (base_tags fl p))),
                  (''vendor'', JStr (brand p)),
                  (''descriptionHtml'', JStr (''<p>'' @ description p @ ''</p>'')),
                  (''productOptions'', productOptions p),
                  (''variants'', JList (map (create_variant p) (variants p))),
                  (''files'', files '' - LUZActive - Image '' p)])]"

text \<open>
  Reading a line back: a member of the \<open>input\<close> object, its tags, its remote id, its
  title.
\<close>

definition input_member :: "string \<Rightarrow> json \<Rightarrow> json option" where
  "input_member key line =
     (case line of
        JObj outer \<Rightarrow>
          (case map_of outer ''input'' of Some (JObj members) \<Rightarrow> map_of members key | _ \<Rightarrow> None)
      | _ \<Rightarrow> None)"

definition tags_of :: "json \<Rightarrow> string list" where
  "tags_of line =
     (case input_member ''tags'' line of
        Some (JList ts) \<Rightarrow> concat (map (\<lambda>t. case t of JStr s \<Rightarrow> [s] | _ \<Rightarrow> []) ts)
      | _ \<Rightarrow> [])"

definition id_of :: "json \<Rightarrow> string option" where
  "id_of line = (case input_member ''id'' line of Some (JStr i) \<Rightarrow> Some i | _ \<Rightarrow> None)"

definition title_of :: "json \<Rightarrow> string option" where
  "title_of line = (case input_member ''title'' line of Some (JStr t) \<Rightarrow> Some t | _ \<Rightarrow> None)"

text \<open>The external identifier a line carries: its third tag, \<open>sku:<sku>\<close>, without the prefix.\<close>

definition sku_of :: "json \<Rightarrow> string" where
  "sku_of line = (case drop 2 (tags_of line) of t # _ \<Rightarrow> drop 4 t | [] \<Rightarrow> [])"

subsection \<open>\<open>generate_product_jsonl\<close>\<close>

text \<open>
  The dictionary \<open>processed_skus\<close> is an association list in the order of its file. One
  turn of the first loop appends either an update line or the product itself; the file is
  then written, the updates first. A line of the file is the JSON value \<open>json.dumps\<close>
  prints on it.
\<close>

definition classify ::
  "float_fun \<Rightarrow> (string \<Rightarrow> string list response) \<Rightarrow> (string \<times> 'm) list \<Rightarrow> product \<Rightarrow>
   json list \<times> product list \<Rightarrow> json list \<times> product list" where
  "classify fl post processed_skus p acc =
     (case acc of
        (updates, creates) \<Rightarrow>
          if sku p \<in> fst ` set processed_skus then
            (case get_shopify_product_id post (sku p) of
               None \<Rightarrow> (updates, creates @ [p])
             | Some shopify_id \<Rightarrow>
                 if shopify_id \<noteq> [] then (updates @ [update_line fl shopify_id p], creates)
                 else (updates, creates @ [p]))
          else (updates, creates @ [p]))"

definition write_jsonl ::
  "float_fun \<Rightarrow> json list \<Rightarrow> product list \<Rightarrow> json list" where
  "write_jsonl fl updates creates = updates @ map (create_line fl) creates"

definition generate_product_jsonl ::
  "float_fun \<Rightarrow> (string \<Rightarrow> string list response) \<Rightarrow> product list \<Rightarrow> (string \<times> 'm) list \<Rightarrow>
   json list \<times> json list \<times> product list" where
  "generate_product_jsonl fl post product_list processed_skus =
     (case fold (classify fl post processed_skus) product_list ([], []) of
        (updates, creates) \<Rightarrow> (write_jsonl fl updates creates, updates, creates))"

subsection \<open>The scrape loop of \<open>fetch_total_product_counts\<close>\<close>

text \<open>
  The scraper is outside the reconciliation; the model takes what it observed. A listing
  URL is skipped (request error, no \<open>dataObject\<close>) or yields its pages; a page fetch
  raises (\<open>sys.exit(1)\<close>), lacks \<open>items\<close>, or yields items. For an item, \<open>plu\<close> is
  \<open>item.get("plu")\<close> and \<open>outcome\<close> what became of its product page: \<open>Skipped\<close> stands
  for each \<open>continue\<close> after \<open>failed_skus.add\<close>, \<open>Scraped p\<close> for the
  \<open>product_upload_data\<close> appended (its \<open>sku\<close> is the \<open>plu\<close> of the product page), and
  \<open>Uncaught\<close> for an exception outside the \<open>try\<close> blocks, which ends the run.
\<close>

datatype fetched = Skipped | Uncaught | Scraped product

record item =
  plu :: "string option"
  outcome :: fetched

datatype page = PageError | PageMissingItems | PageItems "item list"

datatype listing = UrlSkipped | UrlPages "page list"

record scrape =
  current_jd_skus :: "string set"
  failed_skus :: "string option set"
  all_product_data :: "product list"

definition seen :: "string option \<Rightarrow> string set \<Rightarrow> bool" where
  "seen x skus = (case x of None \<Rightarrow> False | Some s \<Rightarrow> s \<in> skus)"

definition track :: "string option \<Rightarrow> string set \<Rightarrow> string set" where
  "track x skus = (case x of None \<Rightarrow> skus | Some s \<Rightarrow> if s = [] then skus else insert s skus)"

definition scrape_item :: "item \<Rightarrow> scrape \<Rightarrow> scrape option" where
  "scrape_item it st =
     (if seen (plu it) (current_jd_skus st) then Some st
      else
        (let st1 = st\<lparr>current_jd_skus := track (plu it) (current_jd_skus st)\<rparr>
         in case outcome it of
              Skipped \<Rightarrow> Some (st1\<lparr>failed_skus := insert (plu it) (failed_skus st1)\<rparr>)
            | Uncaught \<Rightarrow> None
            | Scraped p \<Rightarrow> Some (st1\<lparr>all_product_data := all_product_data st1 @ [p]\<rparr>)))"

fun scrape_items :: "item list \<Rightarrow> scrape \<Rightarrow> scrape option" where
  "scrape_items [] st = Some st"
| "scrape_items (it # its) st =
     (case scrape_item it st of None \<Rightarrow> None | Some st' \<Rightarrow> scrape_items its st')"

fun scrape_pages :: "page list \<Rightarrow> scrape \<Rightarrow> scrape option" where
  "scrape_pages [] st = Some st"
| "scrape_pages (pg # pgs) st =
     (case pg of
        PageError \<Rightarrow> None
      | PageMissingItems \<Rightarrow> scrape_pages pgs st
      | PageItems its \<Rightarrow>
          (case scrape_items its st of None \<Rightarrow> None | Some st' \<Rightarrow> scrape_pages pgs st'))"

fun scrape_urls :: "listing list \<Rightarrow> scrape \<Rightarrow> scrape option" where
  "scrape_urls [] st = Some st"
| "scrape_urls (u # us) st =
     (case u of
        UrlSkipped \<Rightarrow> scrape_urls us st
      | UrlPages pgs \<Rightarrow>
          (case scrape_pages pgs st of None \<Rightarrow> None | Some st' \<Rightarrow> scrape_urls us st'))"

subsection \<open>The reconciliation of \<open>fetch_total_product_counts\<close>\<close>

text \<open>
  From the loaded store to \<open>save_processed_skus\<close>. \<open>iter\<close> is the order in which Python
  iterates the set \<open>skus_to_delete\<close>, which the language leaves open; \<open>fl\<close> is
  \<open>float\<close>, as above. The value written
  for \<open>processed_at\<close> is \<open>json.dumps(None, default=str)\<close>, the string \<open>null\<close>. The run is
  \<open>None\<close> when the scrape ended it. The prints, the skip log and the staged upload that
  follows are left out; the bulk job is \<open>run_bulk_product_set_with_queue\<close> below.
\<close>

record sku_entry =
  entry_name :: string
  processed_at :: string

record 'r run =
  scraped :: scrape
  skus_to_delete :: "string set"
  deletion :: "'r deletion"
  updates :: "json list"
  creates :: "product list"
  products_jsonl :: "json list"
  saved :: "(string \<times> sku_entry) list"

definition remove_deleted :: "string list \<Rightarrow> (string \<times> 'm) list \<Rightarrow> (string \<times> 'm) list" where
  "remove_deleted skus processed_skus =
     fold (\<lambda>s al. if s \<in> fst ` set al then AList.delete s al else al) skus processed_skus"

definition latest_processed_skus :: "product list \<Rightarrow> (string \<times> sku_entry) list" where
  "latest_processed_skus product_list =
     fold (\<lambda>p al. AList.update (sku p) \<lparr>entry_name = name p, processed_at = ''null''\<rparr> al)
       product_list []"

definition fetch_total_product_counts ::
  "float_fun \<Rightarrow> ('r \<Rightarrow> string \<Rightarrow> string list response) \<Rightarrow> ('r \<Rightarrow> string \<Rightarrow> delete_data response \<times> 'r) \<Rightarrow>
   (string set \<Rightarrow> string list) \<Rightarrow> 'r \<Rightarrow> (string \<times> 'm) list \<Rightarrow> listing list \<Rightarrow> 'r run option" where
  "fetch_total_product_counts fl look del iter r processed_skus urls =
     (case scrape_urls urls \<lparr>current_jd_skus = {}, failed_skus = {}, all_product_data = []\<rparr> of
        None \<Rightarrow> None
      | Some s \<Rightarrow>
          (let previous_skus = fst ` set processed_skus;
               to_delete = previous_skus - current_jd_skus s;
               d = (if to_delete \<noteq> {}
                    then delete_products_from_shopify look del (iter to_delete) r
                    else \<lparr>remote = r, log = [], successfully_deleted = 0,
                           failed_deletions = 0\<rparr>);
               kept = (if to_delete \<noteq> {} then remove_deleted (iter to_delete) processed_skus
                       else processed_skus)
           in case generate_product_jsonl fl (look (remote d)) (all_product_data s) kept of
                (file, ups, crs) \<Rightarrow>
                  Some \<lparr>scraped = s, skus_to_delete = to_delete, deletion = d, updates = ups,
                        creates = crs, products_jsonl = file,
                        saved = latest_processed_skus (all_product_data s)\<rparr>))"

section \<open>The job admission gate\<close>

record bulk_operation =
  op_id :: string
  status :: string

definition check_bulk_operation_status :: "bulk_operation option response \<Rightarrow> bulk_operation option" where
  "check_bulk_operation_status reply =
     (case reply of
        RequestError \<Rightarrow> None
      | UnexpectedError \<Rightarrow> None
      | GraphQLErrors \<Rightarrow> None
      | Data bulk_op \<Rightarrow> bulk_op)"

text \<open>
  \<open>replies n\<close> is the remote's reply to the status query number \<open>n\<close> of the run (from
  0). The loop has no bound in the source, so it is a partial function: \<open>None\<close> is a wait
  that never ends. Its value is the list of what it did, in order.
\<close>

datatype gate_event = StatusQuery | Sleep nat | Submit string

partial_function (option) wait_for_bulk_operation_completion ::
  "(nat \<Rightarrow> bulk_operation option response) \<Rightarrow> nat \<Rightarrow> nat \<Rightarrow> gate_event list \<Rightarrow> gate_event list option" where
  "wait_for_bulk_operation_completion replies check_interval n events =
     (case check_bulk_operation_status (replies n) of
        None \<Rightarrow> Some (events @ [StatusQuery])
      | Some status_info \<Rightarrow>
          if status status_info \<in> set [''COMPLETED'', ''FAILED'', ''CANCELED'']
          then Some (events @ [StatusQuery])
          else if status status_info \<in> set [''RUNNING'', ''CREATED'']
          then wait_for_bulk_operation_completion replies check_interval (Suc n)
                 (events @ [StatusQuery, Sleep check_interval])
          else wait_for_bulk_operation_completion replies check_interval (Suc n)
                 (events @ [StatusQuery, Sleep check_interval]))"

text \<open>
  \<open>run_bulk_product_set_with_queue\<close>: the wait with the default interval of 120 seconds,
  then one \<open>bulkOperationRunMutation\<close> request. The function returns \<open>None\<close> on an
  exception of the request and the decoded body otherwise.
\<close>

definition run_bulk_product_set_with_queue ::
  "(nat \<Rightarrow> bulk_operation option response) \<Rightarrow> 'a response \<Rightarrow> string \<Rightarrow>
   (gate_event list \<times> 'a response option) option" where
  "run_bulk_product_set_with_queue replies submit_reply staged_upload_path =
     (case wait_for_bulk_operation_completion replies 120 0 [] of
        None \<Rightarrow> None
      | Some events \<Rightarrow>
          Some (events @ [Submit staged_upload_path],
                case submit_reply of
                  RequestError \<Rightarrow> None
                | UnexpectedError \<Rightarrow> None
                | GraphQLErrors \<Rightarrow> Some submit_reply
                | Data d \<Rightarrow> Some submit_reply))"

section \<open>The duplicate finder (\<open>find_duplicate_skus.py\<close>)\<close>

record node =
  node_id :: string
  title :: string
  node_tags :: "string list"
  createdAt :: string











section \<open>The bulk deleter (\<open>delete_duplicate_products.py\<close>)\<close>

record to_delete =
  del_id :: string
  del_title :: string
  del_reason :: "string option"

datatype file_read = FileNotFound | InvalidJSON | Loaded "to_delete list"

record log_entry =
  entry_id :: string
  entry_title :: string
  entry_reason :: string
  entry_error :: "string option"
  entry_at :: nat

record deletion_log =
  started_at :: nat
  total_products :: nat
  successful_deletions :: "log_entry list"
  failed_log :: "log_entry list"
  completed_at :: "nat option"

text \<open>
  What the deleter can change: the catalog \<open>shop\<close>, through the delete requests it sends
  (\<open>sent\<close> lists their ids), and the log file. \<open>clock\<close> is the reading of
  \<open>datetime.now()\<close>; the model advances it at each reading.
\<close>

record 'r world =
  shop :: 'r
  sent :: "string list"
  log_file :: "deletion_log option"
  clock :: nat

definition tick :: "'r world \<Rightarrow> 'r world" where
  "tick w = w\<lparr>clock := Suc (clock w)\<rparr>"

text \<open>
  \<open>delete_product\<close> catches \<open>RequestException\<close> only: \<open>None\<close> is any other exception,
  which leaves the function. A reply without user errors counts as a success.
\<close>

definition delete_product :: "delete_data response \<Rightarrow> (bool \<times> string option) option" where
  "delete_product reply =
     (case reply of
        RequestError \<Rightarrow> Some (False, Some ''request error'')
      | UnexpectedError \<Rightarrow> None
      | GraphQLErrors \<Rightarrow> Some (False, Some ''errors'')
      | Data d \<Rightarrow>
          if userErrors d \<noteq> [] then Some (False, Some (concat (userErrors d)))
          else Some (True, None))"

text \<open>
  The loop over \<open>enumerate(products, 1)\<close>. \<open>Inl w\<close> is an uncaught exception: the run
  stops there with what it had done, and the log is not written again. The pause between
  two requests changes nothing the model records.
\<close>

fun delete_each ::
  "('r \<Rightarrow> string \<Rightarrow> delete_data response \<times> 'r) \<Rightarrow> nat \<Rightarrow> to_delete list \<Rightarrow>
   'r world \<times> deletion_log \<Rightarrow> 'r world + 'r world \<times> deletion_log" where
  "delete_each del idx [] st = Inr st"
| "delete_each del idx (product # rest) st =
     (case st of
        (w, dlog) \<Rightarrow>
          (case del (shop w) (del_id product) of
             (reply, r') \<Rightarrow>
               (let w1 = w\<lparr>shop := r', sent := sent w @ [del_id product]\<rparr>;
                    why = (case del_reason product of None \<Rightarrow> ''N/A'' | Some t \<Rightarrow> t)
                in case delete_product reply of
                     None \<Rightarrow> Inl w1
                   | Some (success, err) \<Rightarrow>
                       (let e = \<lparr>entry_id = del_id product, entry_title = del_title product,
                                 entry_reason = why, entry_error = err, entry_at = clock w1\<rparr>;
                            dlog1 = (if success
                                     then dlog\<lparr>successful_deletions := successful_deletions dlog @ [e]\<rparr>
                                     else dlog\<lparr>failed_log := failed_log dlog @ [e]\<rparr>);
                            w2 = tick w1
                        in if idx mod 50 = 0
                           then (let dlog2 = dlog1\<lparr>completed_at := Some (clock w2)\<rparr>
                                 in delete_each del (Suc idx) rest
                                      (tick (w2\<lparr>log_file := Some dlog2\<rparr>), dlog2))
                           else delete_each del (Suc idx) rest (w2, dlog1)))))"

definition delete_products_from_file ::
  "('r \<Rightarrow> string \<Rightarrow> delete_data response \<times> 'r) \<Rightarrow> file_read \<Rightarrow> string \<Rightarrow> 'r world \<Rightarrow> 'r world" where
  "delete_products_from_file del input_file confirmation w =
     (case input_file of
        FileNotFound \<Rightarrow> w
      | InvalidJSON \<Rightarrow> w
      | Loaded products \<Rightarrow>
          if confirmation \<noteq> ''DELETE'' then w
          else
            (let dlog = \<lparr>started_at = clock w, total_products = length products,
                         successful_deletions = [], failed_log = [], completed_at = None\<rparr>
             in case delete_each del 1 products (tick w, dlog) of
                  Inl w' \<Rightarrow> w'
                | Inr (w', dlog') \<Rightarrow>
                    tick (w'\<lparr>log_file := Some (dlog'\<lparr>completed_at := Some (clock w')\<rparr>)\<rparr>)))"

section \<open>Notions of the specification and test fixtures\<close>

text \<open>
  The decision the specification names for a scraped record, stated from its words: a
  record whose identifier is not a key of the store is created; for a known one the
  remote is asked, a match is an update carrying the remote id and no match a creation.
  An id that is the empty string counts as no match, since Python tests its truth value.
\<close>

datatype decision = Create | Update string

definition decide :: "(string \<Rightarrow> string list response) \<Rightarrow> (string \<times> 'm) list \<Rightarrow> product \<Rightarrow> decision" where
  "decide post processed_skus p =
     (if sku p \<in> fst ` set processed_skus then
        (case get_shopify_product_id post (sku p) of
           None \<Rightarrow> Create
         | Some remote_id \<Rightarrow> if remote_id = [] then Create else Update remote_id)
      else Create)"

text \<open>
  The update lines of a product list, in its order, by that decision.
\<close>

definition update_lines :: "float_fun \<Rightarrow> (string \<Rightarrow> string list response) \<Rightarrow> (string \<times> 'm) list \<Rightarrow> product list \<Rightarrow> json list" where
  "update_lines fl post processed_skus product_list =
     concat (map (\<lambda>p. case decide post processed_skus p of
                         Create \<Rightarrow> []
                       | Update remote_id \<Rightarrow> [update_line fl remote_id p]) product_list)"

text \<open>
  Which requests of the deletion log are lookups.
\<close>

definition is_lookup :: "request \<Rightarrow> bool" where
  "is_lookup q = (case q of Lookup s \<Rightarrow> True | Delete i \<Rightarrow> False)"

text \<open>
  The requests the specification asks of the deletion, per identifier: the lookup, then
  the delete of the id found when one was found, then the next identifier whatever the
  replies were. The catalog changes with each delete.
\<close>

fun lookup_then_delete ::
  "('r \<Rightarrow> string \<Rightarrow> string list response) \<Rightarrow> ('r \<Rightarrow> string \<Rightarrow> delete_data response \<times> 'r) \<Rightarrow>
   string list \<Rightarrow> 'r \<Rightarrow> request list" where
  "lookup_then_delete look del [] r = []"
| "lookup_then_delete look del (s # ss) r =
     (case get_shopify_product_id (look r) s of
        None \<Rightarrow> Lookup s # lookup_then_delete look del ss r
      | Some pid \<Rightarrow>
          if pid = [] then Lookup s # lookup_then_delete look del ss r
          else Lookup s # Delete pid # lookup_then_delete look del ss (snd (del r pid)))"

text \<open>
  The items of a listing, in the order of the scrape, and two conditions on an item:
  \<open>own_id\<close>, a scraped record carries the identifier its listing gave (not empty);
  \<open>scraped_ok\<close>, the item was scraped and does so.
\<close>

definition page_items :: "page \<Rightarrow> item list" where
  "page_items pg = (case pg of PageItems its \<Rightarrow> its | _ \<Rightarrow> [])"

definition items_of :: "listing list \<Rightarrow> item list" where
  "items_of urls =
     concat (map (\<lambda>u. case u of UrlSkipped \<Rightarrow> [] | UrlPages pgs \<Rightarrow> concat (map page_items pgs)) urls)"



text \<open>
  The identifiers a listing shows: the non-empty \<open>plu\<close> of its items.
\<close>

definition listed :: "listing list \<Rightarrow> string set" where
  "listed urls = {s. s \<noteq> [] \<and> Some s \<in> plu ` set (items_of urls)}"

text \<open>
  The states of the remote job as the gate tells them apart, and \<open>k\<close> poll cycles
  of one status query and one sleep.
\<close>

definition is_active :: "bulk_operation option response \<Rightarrow> bool" where
  "is_active reply =
     (case check_bulk_operation_status reply of
        None \<Rightarrow> False
      | Some info \<Rightarrow> status info = ''RUNNING'' \<or> status info = ''CREATED'')"

definition slot_free :: "bulk_operation option response \<Rightarrow> bool" where
  "slot_free reply =
     (case check_bulk_operation_status reply of
        None \<Rightarrow> True
      | Some info \<Rightarrow> status info = ''COMPLETED'' \<or> status info = ''FAILED'' \<or> status info = ''CANCELED'')"

definition cycles :: "nat \<Rightarrow> nat \<Rightarrow> gate_event list" where
  "cycles k interval = concat (replicate k [StatusQuery, Sleep interval])"

text \<open>
  A stand-in for \<open>float\<close> in the fixtures. On a string of one to fifteen decimal digits
  \<open>float\<close> returns the integer it names, which is a double; the stand-in is \<open>float\<close>
  there, and raises on every other string, the empty one among them. No theorem about all
  inputs depends on it: there \<open>fl\<close> is any function.
\<close>

definition digit :: "char \<Rightarrow> nat option" where
  "digit c =
     (let code = (of_char c :: nat) in if 48 \<le> code \<and> code \<le> 57 then Some (code - 48) else None)"

fun digits :: "string \<Rightarrow> nat \<Rightarrow> nat option" where
  "digits [] acc = Some acc"
| "digits (c # cs) acc = (case digit c of None \<Rightarrow> None | Some d \<Rightarrow> digits cs (10 * acc + d))"

definition float_digits :: float_fun where
  "float_digits s =
     (if s = [] \<or> 15 < length s then None
      else map_option (\<lambda>n. Finite (real n)) (digits s 0))"

text \<open>
  Fixtures. A catalog of (remote id, sku) pairs that answers lookups and deletes as the
  platform does; a product with its identifier and prices; a remote that reports a
  running job three times and a completed one after; and one whose first status query
  fails while a job is running.
\<close>

definition mock_look :: "(string \<times> string) list \<Rightarrow> string \<Rightarrow> string list response" where
  "mock_look catalog s = Data (map fst (filter (\<lambda>(i, k). k = s) catalog))"

definition mock_del :: "(string \<times> string) list \<Rightarrow> string \<Rightarrow> delete_data response \<times> (string \<times> string) list" where
  "mock_del catalog i =
     (if i \<in> fst ` set catalog
      then (Data \<lparr>userErrors = [], deletedProductId = Some i\<rparr>, filter (\<lambda>(j, k). j \<noteq> i) catalog)
      else (Data \<lparr>userErrors = [''Product does not exist''], deletedProductId = None\<rparr>, catalog))"

definition mk_product :: "string \<Rightarrow> string \<Rightarrow> string \<Rightarrow> product" where
  "mk_product s pr prev =
     \<lparr>sku = s, name = ''Shoe '' @ s, price = pr,
      variants = [\<lparr>vname = ''8'', upc = ''0001'', quantity = 1\<rparr>],
      images = [''https://i.example/a.jpg?v=1''], description = ''A shoe'',
      previousPrice = prev, originalCost = ''90'', gender = ''Women'',
      productType = ''Footwear'', brand = ''adidas''\<rparr>"

definition mock_replies :: "nat \<Rightarrow> bulk_operation option response" where
  "mock_replies n =
     (if n < 3 then Data (Some \<lparr>op_id = ''gid://shopify/BulkOperation/1'', status = ''RUNNING''\<rparr>)
      else Data (Some \<lparr>op_id = ''gid://shopify/BulkOperation/1'', status = ''COMPLETED''\<rparr>))"

definition failing_replies :: "nat \<Rightarrow> bulk_operation option response" where
  "failing_replies n =
     (if n = 0 then RequestError
      else Data (Some \<lparr>op_id = ''gid://shopify/BulkOperation/1'', status = ''RUNNING''\<rparr>))"

text \<open>
  A deletion list of one duplicate, and a world whose catalog holds it and its newer twin.
\<close>

definition one_duplicate :: to_delete where
  "one_duplicate =
     \<lparr>del_id = ''gid://shopify/Product/1'', del_title = ''Shoe'',
      del_reason = Some ''Duplicate SKU tag: 1''\<rparr>"

definition world0 :: "(string \<times> string) list world" where
  "world0 =
     \<lparr>shop = [(''gid://shopify/Product/1'', ''1''), (''gid://shopify/Product/2'', ''1'')],
      sent = [], log_file = None, clock = 0\<rparr>"

text \<open>
  A store that knows B and C, catalogs that hold B, or B and C, and five scraped records
  of which the second and the fourth are known and found. A record whose brand is the
  word the discount tag uses.
\<close>

definition store_BC :: "(string \<times> sku_entry) list" where
  "store_BC =
     [(''B'', \<lparr>entry_name = ''Shoe B'', processed_at = ''null''\<rparr>),
      (''C'', \<lparr>entry_name = ''Shoe C'', processed_at = ''null''\<rparr>)]"

definition catalog_B :: "(string \<times> string) list" where
  "catalog_B = [(''gid://shopify/Product/11'', ''B'')]"

definition catalog_BC :: "(string \<times> string) list" where
  "catalog_BC = [(''gid://shopify/Product/11'', ''B''), (''gid://shopify/Product/12'', ''C'')]"

definition five_products :: "product list" where
  "five_products =
     [mk_product ''N1'' ''100'' '''', mk_product ''B'' ''100'' '''', mk_product ''N2'' ''100'' '''',
      mk_product ''C'' ''100'' '''', mk_product ''N3'' ''100'' '''']"

definition brand_named_discounted :: product where
  "brand_named_discounted = (mk_product ''A'' ''150'' ''100'')\<lparr>brand := ''discounted''\<rparr>"

text \<open>
  The store the classification sees: the deleted identifiers removed, when there are any.
\<close>

definition kept_skus :: "(string set \<Rightarrow> string list) \<Rightarrow> (string \<times> 'm) list \<Rightarrow> string set \<Rightarrow> (string \<times> 'm) list" where
  "kept_skus iter ps td = (if td \<noteq> {} then remove_deleted (iter td) ps else ps)"

text \<open>
  Fixtures of whole runs. The store knows A, B and C and the catalog holds them; the
  listing shows B, C and D, each scraped. In the second run the store and the catalog
  hold A, the listing shows A, and its product page is skipped.
\<close>

definition scraped_item :: "string \<Rightarrow> item" where
  "scraped_item s = \<lparr>plu = Some s, outcome = Scraped (mk_product s ''100'' '''')\<rparr>"


definition store_ABC :: "(string \<times> sku_entry) list" where
  "store_ABC =
     [(''A'', \<lparr>entry_name = ''Shoe A'', processed_at = ''null''\<rparr>),
      (''B'', \<lparr>entry_name = ''Shoe B'', processed_at = ''null''\<rparr>),
      (''C'', \<lparr>entry_name = ''Shoe C'', processed_at = ''null''\<rparr>)]"

definition catalog_ABC :: "(string \<times> string) list" where
  "catalog_ABC =
     [(''gid://shopify/Product/10'', ''A''), (''gid://shopify/Product/11'', ''B''),
      (''gid://shopify/Product/12'', ''C'')]"

definition urls_BCD :: "listing list" where
  "urls_BCD =
     [UrlPages [PageItems [scraped_item ''B'', scraped_item ''C''], PageItems [scraped_item ''D'']]]"












text \<open>
  A remote whose delete of one given id fails with a request error.
\<close>

definition failing_del ::
  "string \<Rightarrow> (string \<times> string) list \<Rightarrow> string \<Rightarrow> delete_data response \<times> (string \<times> string) list" where
  "failing_del bad catalog i = (if i = bad then (RequestError, catalog) else mock_del catalog i)"

section \<open>Auxiliary facts\<close>

subsection \<open>Classification and the lines of the batch file\<close>

lemma classify_decide:
  "classify fl post ps p (us, cs) =
     (case decide post ps p of
        Create \<Rightarrow> (us, cs @ [p])
      | Update remote_id \<Rightarrow> (us @ [update_line fl remote_id p], cs))"
  by (simp add: classify_def decide_def split: option.splits)

lemma fold_classify:
  "fold (classify fl post ps) xs (us, cs) =
     (us @ update_lines fl post ps xs, cs @ filter (\<lambda>p. decide post ps p = Create) xs)"
proof (induction xs arbitrary: us cs)
  case Nil
  then show ?case by (simp add: update_lines_def)
next
  case (Cons x xs)
  show ?case
  proof (cases "decide post ps x")
    case Create
    then show ?thesis using Cons.IH [of us "cs @ [x]"]
      by (simp add: classify_decide update_lines_def)
  next
    case (Update i)
    then show ?thesis using Cons.IH [of "us @ [update_line fl i x]" cs]
      by (simp add: classify_decide update_lines_def)
  qed
qed

lemma generate_product_jsonl_eq:
  "generate_product_jsonl fl post xs ps =
     (update_lines fl post ps xs @ map (create_line fl) (filter (\<lambda>p. decide post ps p = Create) xs),
      update_lines fl post ps xs, filter (\<lambda>p. decide post ps p = Create) xs)"
  by (simp add: generate_product_jsonl_def fold_classify write_jsonl_def)

lemma tags_of_update_line: "tags_of (update_line fl i p) = base_tags fl p"
proof -
  have "concat (map (\<lambda>t. case t of JStr s \<Rightarrow> [s] | _ \<Rightarrow> []) (map JStr ts)) = ts" for ts
    by (induction ts) simp_all
  then show ?thesis by (simp add: tags_of_def update_line_def input_member_def)
qed

lemma tags_of_create_line: "tags_of (create_line fl p) = base_tags fl p"
proof -
  have "concat (map (\<lambda>t. case t of JStr s \<Rightarrow> [s] | _ \<Rightarrow> []) (map JStr ts)) = ts" for ts
    by (induction ts) simp_all
  then show ?thesis by (simp add: tags_of_def create_line_def input_member_def)
qed

lemma id_of_update_line: "id_of (update_line fl i p) = Some i"
  by (simp add: id_of_def update_line_def input_member_def)

lemma id_of_create_line: "id_of (create_line fl p) = None"
  by (simp add: id_of_def create_line_def input_member_def)

lemma sku_of_update_line: "sku_of (update_line fl i p) = sku p"
  by (simp add: sku_of_def tags_of_update_line base_tags_def Let_def)

lemma sku_of_create_line: "sku_of (create_line fl p) = sku p"
  by (simp add: sku_of_def tags_of_create_line base_tags_def Let_def)

lemma is_discounted_iff:
  assumes "fl [] = None"
  shows "is_discounted fl p =
     (\<exists>a b. fl (price p) = Some a \<and> fl (previousPrice p) = Some b
            \<and> float_gt a (Finite 0) \<and> float_gt b (Finite 0) \<and> float_gt b a)"
  using assms by (auto simp: is_discounted_def float_or_0_def split: option.splits)

lemma discounted_in_base_tags:
  assumes "gender p \<noteq> ''discounted''" "productType p \<noteq> ''discounted''" "brand p \<noteq> ''discounted''"
  shows "(''discounted'' \<in> set (base_tags fl p)) = is_discounted fl p"
  using assms by (auto simp: base_tags_def Let_def)

subsection \<open>The deletion loop\<close>

lemma delete_one_lookups:
  "filter is_lookup (log (delete_one look del s st)) = filter is_lookup (log st) @ [Lookup s]"
  by (simp add: delete_one_def Let_def count_failed_def count_deleted_def is_lookup_def
      split: option.splits prod.splits response.splits)

lemma delete_one_counts:
  "successfully_deleted (delete_one look del s st) + failed_deletions (delete_one look del s st) =
   Suc (successfully_deleted st + failed_deletions st)"
  by (simp add: delete_one_def Let_def count_failed_def count_deleted_def
      split: option.splits prod.splits response.splits)

lemma delete_loop_lookups:
  "filter is_lookup (log (delete_loop look del skus st)) = filter is_lookup (log st) @ map Lookup skus"
  by (induction skus arbitrary: st) (simp_all add: delete_one_lookups)

lemma delete_loop_counts:
  "successfully_deleted (delete_loop look del skus st) + failed_deletions (delete_loop look del skus st) =
   successfully_deleted st + failed_deletions st + length skus"
  by (induction skus arbitrary: st) (simp_all add: delete_one_counts)

lemma delete_products_lookups:
  "filter is_lookup (log (delete_products_from_shopify look del skus r)) = map Lookup skus"
  by (simp add: delete_products_from_shopify_def delete_loop_lookups Let_def)

lemma delete_products_counts:
  "successfully_deleted (delete_products_from_shopify look del skus r)
   + failed_deletions (delete_products_from_shopify look del skus r) = length skus"
  by (simp add: delete_products_from_shopify_def delete_loop_counts Let_def)

subsection \<open>The scrape\<close>

lemma scrape_items_append:
  "scrape_items (xs @ ys) st =
     (case scrape_items xs st of None \<Rightarrow> None | Some st' \<Rightarrow> scrape_items ys st')"
  by (induction xs arbitrary: st) (simp_all split: option.splits)

lemma scrape_pages_items:
  "scrape_pages pgs st = Some st' \<Longrightarrow> scrape_items (concat (map page_items pgs)) st = Some st'"
proof (induction pgs arbitrary: st)
  case Nil
  then show ?case by simp
next
  case (Cons pg pgs)
  then show ?case
    by (cases pg) (auto simp: page_items_def scrape_items_append split: option.splits)
qed

lemma scrape_urls_items:
  "scrape_urls urls st = Some st' \<Longrightarrow> scrape_items (items_of urls) st = Some st'"
proof (induction urls arbitrary: st)
  case Nil
  then show ?case by (simp add: items_of_def)
next
  case (Cons u urls)
  show ?case
  proof (cases u)
    case UrlSkipped
    then show ?thesis using Cons by (simp add: items_of_def)
  next
    case (UrlPages pgs)
    with Cons.prems obtain st1 where a: "scrape_pages pgs st = Some st1"
      and b: "scrape_urls urls st1 = Some st'"
      by (auto split: option.splits)
    from scrape_pages_items [OF a] Cons.IH [OF b] UrlPages show ?thesis
      by (simp add: items_of_def scrape_items_append)
  qed
qed





subsection \<open>The rewritten store\<close>








subsection \<open>Identifier sets of the decisions\<close>

lemma decide_sku: "sku p = sku q \<Longrightarrow> decide post ps p = decide post ps q"
  by (simp add: decide_def)

lemma update_lines_Cons:
  "update_lines fl post ps (x # xs) =
     (case decide post ps x of Create \<Rightarrow> [] | Update i \<Rightarrow> [update_line fl i x]) @ update_lines fl post ps xs"
  by (simp add: update_lines_def)

lemma update_lines_Nil: "update_lines fl post ps [] = []"
  by (simp add: update_lines_def)

lemma set_update_lines_filter:
  "sku_of ` set (update_lines fl post ps xs) = sku ` set (filter (\<lambda>p. decide post ps p \<noteq> Create) xs)"
proof (induction xs)
  case Nil
  then show ?case by (simp add: update_lines_Nil)
next
  case (Cons x xs)
  show ?case
  proof (cases "decide post ps x")
    case Create
    then show ?thesis using Cons.IH by (simp add: update_lines_Cons)
  next
    case (Update i)
    then show ?thesis using Cons.IH
      by (simp add: update_lines_Cons sku_of_update_line)
  qed
qed

lemma set_update_lines:
  "sku_of ` set (update_lines fl post ps xs) = sku ` {p \<in> set xs. decide post ps p \<noteq> Create}"
  by (simp add: set_update_lines_filter)



subsection \<open>The wait loop\<close>

lemma wait_free:
  "slot_free (replies n) \<Longrightarrow>
   wait_for_bulk_operation_completion replies interval n events = Some (events @ [StatusQuery])"
  by (subst wait_for_bulk_operation_completion.simps)
     (auto simp: slot_free_def split: option.splits)

lemma wait_active:
  "is_active (replies n) \<Longrightarrow>
   wait_for_bulk_operation_completion replies interval n events =
   wait_for_bulk_operation_completion replies interval (Suc n) (events @ [StatusQuery, Sleep interval])"
  by (subst wait_for_bulk_operation_completion.simps)
     (auto simp: is_active_def split: option.splits)

lemma wait_cycles:
  "(\<forall>i<k. is_active (replies (n + i))) \<Longrightarrow> slot_free (replies (n + k)) \<Longrightarrow>
   wait_for_bulk_operation_completion replies interval n events =
   Some (events @ cycles k interval @ [StatusQuery])"
proof (induction k arbitrary: n events)
  case 0
  then show ?case by (simp add: wait_free cycles_def)
next
  case (Suc k)
  from Suc.prems(1) have a: "is_active (replies n)" by force
  have b: "\<forall>i<k. is_active (replies (Suc n + i))"
    using Suc.prems(1) by (metis add_Suc_shift Suc_less_eq)
  have c: "slot_free (replies (Suc n + k))" using Suc.prems(2) by simp
  have "wait_for_bulk_operation_completion replies interval n events =
        wait_for_bulk_operation_completion replies interval (Suc n)
          (events @ [StatusQuery, Sleep interval])"
    using wait_active [of replies n interval events] a by simp
  also have "\<dots> = Some ((events @ [StatusQuery, Sleep interval]) @ cycles k interval @ [StatusQuery])"
    using Suc.IH [of "Suc n" "events @ [StatusQuery, Sleep interval]"] b c by simp
  finally show ?case by (simp add: cycles_def)
qed

subsection \<open>Decisions and prices on the fixtures\<close>

lemma sku_mk_product: "sku (mk_product s a b) = s"
  by (simp add: mk_product_def)

lemma decide_unknown: "sku p \<notin> fst ` set ps \<Longrightarrow> decide post ps p = Create"
  by (simp add: decide_def)

lemma decide_found:
  "sku p \<in> fst ` set ps \<Longrightarrow> post (sku p) = Data (i # others) \<Longrightarrow> i \<noteq> [] \<Longrightarrow>
   decide post ps p = Update i"
  by (simp add: decide_def get_shopify_product_id_def)

lemma decide_missing:
  "sku p \<in> fst ` set ps \<Longrightarrow> get_shopify_product_id post (sku p) = None \<Longrightarrow>
   decide post ps p = Create"
  by (simp add: decide_def)

lemma update_line_in_update_lines:
  "p \<in> set xs \<Longrightarrow> decide post ps p = Update i \<Longrightarrow> update_line fl i p \<in> set (update_lines fl post ps xs)"
  by (induction xs) (auto simp: update_lines_Cons update_lines_Nil split: decision.splits)

lemma create_not_in_updates:
  assumes "decide post ps p = Create"
  shows "sku p \<notin> sku_of ` set (update_lines fl post ps xs)"
proof
  assume "sku p \<in> sku_of ` set (update_lines fl post ps xs)"
  then obtain q where q: "q \<in> set xs" "decide post ps q \<noteq> Create" "sku p = sku q"
    unfolding set_update_lines by auto
  with decide_sku [of p q post ps] assms show False by simp
qed

lemma update_lines_have_id: "l \<in> set (update_lines fl post ps xs) \<Longrightarrow> id_of l \<noteq> None"
  by (induction xs)
    (auto simp: update_lines_Cons update_lines_Nil id_of_update_line split: decision.splits)

lemma float_digits_100: "float_digits ''100'' = Some (Finite 100)"
  by (simp add: float_digits_def digit_def)

lemma float_digits_150: "float_digits ''150'' = Some (Finite 150)"
  by (simp add: float_digits_def digit_def)

lemma float_digits_empty: "float_digits [] = None"
  by (simp add: float_digits_def)

lemma example_classification:
  "generate_product_jsonl float_digits (mock_look catalog_B)
     [mk_product ''D'' ''100'' '''', mk_product ''B'' ''100'' '''', mk_product ''C'' ''100'' '''']
     store_BC =
   ([update_line float_digits ''gid://shopify/Product/11'' (mk_product ''B'' ''100'' ''''),
     create_line float_digits (mk_product ''D'' ''100'' ''''), create_line float_digits (mk_product ''C'' ''100'' '''')],
    [update_line float_digits ''gid://shopify/Product/11'' (mk_product ''B'' ''100'' '''')],
    [mk_product ''D'' ''100'' '''', mk_product ''C'' ''100'' ''''])"
  by (simp add: generate_product_jsonl_eq update_lines_def decide_def sku_mk_product store_BC_def
      catalog_B_def mock_look_def get_shopify_product_id_def)

subsection \<open>The run and its fixtures\<close>

lemma delete_one_log:
  "log (delete_one look del s st) =
     log st @ Lookup s #
       (case get_shopify_product_id (look (remote st)) s of
          None \<Rightarrow> []
        | Some pid \<Rightarrow> if pid = [] then [] else [Delete pid])"
  by (simp add: delete_one_def Let_def count_failed_def count_deleted_def
      split: option.splits prod.splits response.splits)

lemma fetch_Some:
  assumes "fetch_total_product_counts fl look del iter r ps urls = Some res"
  shows "scrape_urls urls \<lparr>current_jd_skus = {}, failed_skus = {}, all_product_data = []\<rparr>
           = Some (scraped res)"
    and "skus_to_delete res = fst ` set ps - current_jd_skus (scraped res)"
    and "deletion res =
       (if skus_to_delete res \<noteq> {}
        then delete_products_from_shopify look del (iter (skus_to_delete res)) r
        else \<lparr>remote = r, log = [], successfully_deleted = 0, failed_deletions = 0\<rparr>)"
    and "updates res =
       update_lines fl (look (remote (deletion res))) (kept_skus iter ps (skus_to_delete res))
         (all_product_data (scraped res))"
    and "creates res =
       filter (\<lambda>q. decide (look (remote (deletion res))) (kept_skus iter ps (skus_to_delete res)) q
                    = Create)
         (all_product_data (scraped res))"
    and "products_jsonl res = write_jsonl fl (updates res) (creates res)"
    and "saved res = latest_processed_skus (all_product_data (scraped res))"
proof -
  from assms obtain s where
    s: "scrape_urls urls \<lparr>current_jd_skus = {}, failed_skus = {}, all_product_data = []\<rparr> = Some s"
    by (auto simp: fetch_total_product_counts_def split: option.splits)
  define td where "td = fst ` set ps - current_jd_skus s"
  define d where "d = (if td \<noteq> {} then delete_products_from_shopify look del (iter td) r
      else \<lparr>remote = r, log = [], successfully_deleted = 0, failed_deletions = 0\<rparr>)"
  define kept where "kept = (if td \<noteq> {} then remove_deleted (iter td) ps else ps)"
  have "Some \<lparr>scraped = s, skus_to_delete = td, deletion = d,
      updates = update_lines fl (look (remote d)) kept (all_product_data s),
      creates = filter (\<lambda>q. decide (look (remote d)) kept q = Create) (all_product_data s),
      products_jsonl = write_jsonl fl (update_lines fl (look (remote d)) kept (all_product_data s))
         (filter (\<lambda>q. decide (look (remote d)) kept q = Create) (all_product_data s)),
      saved = latest_processed_skus (all_product_data s)\<rparr> = Some res"
    using assms
    unfolding fetch_total_product_counts_def s option.case Let_def generate_product_jsonl_eq
      prod.case td_def [symmetric] d_def [symmetric] kept_def [symmetric] write_jsonl_def [symmetric]
    by this
  then have res: "res = \<lparr>scraped = s, skus_to_delete = td, deletion = d,
      updates = update_lines fl (look (remote d)) kept (all_product_data s),
      creates = filter (\<lambda>q. decide (look (remote d)) kept q = Create) (all_product_data s),
      products_jsonl = write_jsonl fl (update_lines fl (look (remote d)) kept (all_product_data s))
         (filter (\<lambda>q. decide (look (remote d)) kept q = Create) (all_product_data s)),
      saved = latest_processed_skus (all_product_data s)\<rparr>"
    by (simp only: option.inject)
  have k: "kept_skus iter ps td = kept" by (simp only: kept_skus_def kept_def)
  show "scrape_urls urls \<lparr>current_jd_skus = {}, failed_skus = {}, all_product_data = []\<rparr>
           = Some (scraped res)"
    by (simp add: res s)
  show "skus_to_delete res = fst ` set ps - current_jd_skus (scraped res)"
    by (simp add: res td_def)
  show "deletion res =
       (if skus_to_delete res \<noteq> {}
        then delete_products_from_shopify look del (iter (skus_to_delete res)) r
        else \<lparr>remote = r, log = [], successfully_deleted = 0, failed_deletions = 0\<rparr>)"
    by (simp add: res d_def)
  show "updates res =
       update_lines fl (look (remote (deletion res))) (kept_skus iter ps (skus_to_delete res))
         (all_product_data (scraped res))"
    by (simp add: res k)
  show "creates res =
       filter (\<lambda>q. decide (look (remote (deletion res))) (kept_skus iter ps (skus_to_delete res)) q
                    = Create)
         (all_product_data (scraped res))"
    by (simp add: res k)
  show "products_jsonl res = write_jsonl fl (updates res) (creates res)"
    by (simp add: res)
  show "saved res = latest_processed_skus (all_product_data (scraped res))"
    by (simp add: res)
qed

lemma fetch_returns:
  assumes "scrape_urls urls \<lparr>current_jd_skus = {}, failed_skus = {}, all_product_data = []\<rparr> = Some s"
  shows "\<exists>res. fetch_total_product_counts fl look del iter r ps urls = Some res"
  unfolding fetch_total_product_counts_def assms option.case Let_def
  by (simp split: prod.splits)

lemma scrape_BCD:
  "scrape_urls urls_BCD \<lparr>current_jd_skus = {}, failed_skus = {}, all_product_data = []\<rparr> =
     Some \<lparr>current_jd_skus = {''D'', ''C'', ''B''}, failed_skus = {},
           all_product_data = [mk_product ''B'' ''100'' '''', mk_product ''C'' ''100'' '''',
                               mk_product ''D'' ''100'' '''']\<rparr>"
  by (simp add: urls_BCD_def scraped_item_def scrape_item_def seen_def track_def Let_def)


lemma to_delete_ABC: "fst ` set store_ABC - {''D'', ''C'', ''B''} = {''A''}"
  by (auto simp: store_ABC_def)

lemma delete_A:
  "delete_products_from_shopify mock_look mock_del [''A''] catalog_ABC =
     \<lparr>remote = [(''gid://shopify/Product/11'', ''B''), (''gid://shopify/Product/12'', ''C'')],
      log = [Lookup ''A'', Delete ''gid://shopify/Product/10''],
      successfully_deleted = 1, failed_deletions = 0\<rparr>"
  by (simp add: delete_products_from_shopify_def delete_one_def Let_def mock_look_def mock_del_def
      catalog_ABC_def get_shopify_product_id_def truthy_def count_deleted_def)


subsection \<open>The duplicate groups\<close>



















subsection \<open>Reading lines back, the deletion log and what the scrape saw\<close>

lemma title_of_create_line: "title_of (create_line fl p) = Some (name p)"
  by (simp add: title_of_def create_line_def input_member_def)

lemma title_of_update_line: "title_of (update_line fl i p) = None"
  by (simp add: title_of_def update_line_def input_member_def)

lemma map_sku_of_update_lines:
  "map sku_of (update_lines fl post ps xs) = map sku (filter (\<lambda>q. decide post ps q \<noteq> Create) xs)"
proof (induction xs)
  case Nil
  then show ?case by (simp add: update_lines_Nil)
next
  case (Cons x xs)
  then show ?case
    by (cases "decide post ps x") (simp_all add: update_lines_Cons sku_of_update_line)
qed

lemma map_id_of_update_lines:
  "map id_of (update_lines fl post ps xs) =
     map (\<lambda>q. case decide post ps q of Create \<Rightarrow> None | Update i \<Rightarrow> Some i)
       (filter (\<lambda>q. decide post ps q \<noteq> Create) xs)"
proof (induction xs)
  case Nil
  then show ?case by (simp add: update_lines_Nil)
next
  case (Cons x xs)
  then show ?case
    by (cases "decide post ps x") (simp_all add: update_lines_Cons id_of_update_line)
qed

lemma delete_one_remote:
  "remote (delete_one look del s st) =
     (case get_shopify_product_id (look (remote st)) s of
        None \<Rightarrow> remote st
      | Some pid \<Rightarrow> if pid = [] then remote st else snd (del (remote st) pid))"
  by (simp add: delete_one_def Let_def count_failed_def count_deleted_def
      split: option.splits prod.splits response.splits)

lemma delete_loop_log:
  "log (delete_loop look del skus st) = log st @ lookup_then_delete look del skus (remote st)"
proof (induction skus arbitrary: st)
  case Nil
  then show ?case by simp
next
  case (Cons s skus)
  show ?case
    by (simp add: Cons.IH delete_one_log delete_one_remote split: option.splits)
qed

lemma delete_products_log:
  "log (delete_products_from_shopify look del skus r) = lookup_then_delete look del skus r"
  by (simp add: delete_products_from_shopify_def Let_def delete_loop_log)

lemma track_seen: "seen x skus \<Longrightarrow> track x skus = skus"
  by (auto simp: seen_def track_def split: option.splits)

lemma scrape_item_current:
  "scrape_item it st = Some st' \<Longrightarrow> current_jd_skus st' = track (plu it) (current_jd_skus st)"
  by (auto simp: scrape_item_def Let_def track_seen split: if_splits fetched.splits)

lemma track_eq: "track x skus = skus \<union> {s. s \<noteq> [] \<and> x = Some s}"
  by (auto simp: track_def split: option.splits)

lemma scrape_items_current:
  "scrape_items its st = Some st' \<Longrightarrow>
   current_jd_skus st' = current_jd_skus st \<union> {s. s \<noteq> [] \<and> Some s \<in> plu ` set its}"
proof (induction its arbitrary: st)
  case Nil
  then show ?case by simp
next
  case (Cons it its)
  from Cons.prems obtain st1 where a: "scrape_item it st = Some st1"
    and b: "scrape_items its st1 = Some st'"
    by (auto split: option.splits)
  have "current_jd_skus st1 = current_jd_skus st \<union> {s. s \<noteq> [] \<and> plu it = Some s}"
    using scrape_item_current [OF a] by (simp add: track_eq)
  with Cons.IH [OF b] show ?case by auto
qed

lemma scrape_item_data:
  "scrape_item it st = Some st' \<Longrightarrow>
   set (all_product_data st') \<subseteq> set (all_product_data st) \<union> {p. outcome it = Scraped p}"
  by (auto simp: scrape_item_def Let_def split: if_splits fetched.splits)

lemma scrape_items_data:
  "scrape_items its st = Some st' \<Longrightarrow>
   set (all_product_data st') \<subseteq> set (all_product_data st) \<union> {p. \<exists>it\<in>set its. outcome it = Scraped p}"
proof (induction its arbitrary: st)
  case Nil
  then show ?case by simp
next
  case (Cons it its)
  from Cons.prems obtain st1 where a: "scrape_item it st = Some st1"
    and b: "scrape_items its st1 = Some st'"
    by (auto split: option.splits)
  from scrape_item_data [OF a] Cons.IH [OF b] show ?case by auto
qed

lemma fetch_current:
  assumes "fetch_total_product_counts fl look del iter r ps urls = Some res"
  shows "current_jd_skus (scraped res) = listed urls"
    and "set (all_product_data (scraped res)) \<subseteq> {p. \<exists>it\<in>set (items_of urls). outcome it = Scraped p}"
proof -
  note i = scrape_urls_items [OF fetch_Some(1) [OF assms]]
  show "current_jd_skus (scraped res) = listed urls"
    using scrape_items_current [OF i] by (simp add: listed_def)
  show "set (all_product_data (scraped res)) \<subseteq> {p. \<exists>it\<in>set (items_of urls). outcome it = Scraped p}"
    using scrape_items_data [OF i] by simp
qed

lemma iter_ABC: "sorted_list_of_set {''A'', ''B'', ''C''} = [''A'', ''B'', ''C'']"
  by (simp add: insert_Diff_if)

lemma delete_ABC_failing:
  "delete_products_from_shopify mock_look (failing_del ''gid://shopify/Product/11'')
     [''A'', ''B'', ''C''] catalog_BC =
     \<lparr>remote = [(''gid://shopify/Product/11'', ''B'')],
      log = [Lookup ''A'', Lookup ''B'', Delete ''gid://shopify/Product/11'', Lookup ''C'',
             Delete ''gid://shopify/Product/12''],
      successfully_deleted = 1, failed_deletions = 2\<rparr>"
  by (simp add: delete_products_from_shopify_def delete_one_def Let_def mock_look_def mock_del_def
      failing_del_def catalog_BC_def get_shopify_product_id_def truthy_def count_deleted_def
      count_failed_def)

section \<open>The claims\<close>

subsection \<open>Reconciliation\<close>

text \<open>
  Claim C1. In every run that reaches the reconciliation, \<open>current_jd_skus\<close> holds the
  identifiers the listing showed (the non-empty \<open>plu\<close> of its items, scraped or
  skipped), and the identifiers selected for deletion are the keys of the loaded store
  minus these. The requests of the deletion are, for each such identifier in the order of
  the iteration, its lookup, followed by the delete of the id it returned when it returned
  one (\<open>lookup_then_delete\<close>): a miss sends no delete, and neither a miss nor a failed
  delete stops the loop, so every identifier gets its lookup and the two counters add up
  to their number. The store A, B, C with the scrape B, C, D selects A alone. In the
  second fixture nothing is listed, A is unknown to the remote and the delete of B fails:
  the loop still reaches C and deletes it.
\<close>

theorem deletion_by_absence:
  assumes "fetch_total_product_counts fl look del iter r processed_skus urls = Some res"
    and "set (iter (skus_to_delete res)) = skus_to_delete res"
    and "distinct (iter (skus_to_delete res))"
  shows "skus_to_delete res = fst ` set processed_skus - current_jd_skus (scraped res)
       \<and> filter is_lookup (log (deletion res)) = map Lookup (iter (skus_to_delete res))
       \<and> set (filter is_lookup (log (deletion res))) = Lookup ` skus_to_delete res
       \<and> successfully_deleted (deletion res) + failed_deletions (deletion res)
           = card (skus_to_delete res)
       \<and> current_jd_skus (scraped res) = listed urls
       \<and> log (deletion res) = lookup_then_delete look del (iter (skus_to_delete res)) r"
proof -
  note s = fetch_Some(2) [OF assms(1)] and d = fetch_Some(3) [OF assms(1)]
  have e: "iter (skus_to_delete res) = []" if "skus_to_delete res = {}"
    using that assms(2) by simp
  have l: "filter is_lookup (log (deletion res)) = map Lookup (iter (skus_to_delete res))"
    using e by (simp add: d delete_products_lookups)
  have c: "successfully_deleted (deletion res) + failed_deletions (deletion res)
      = length (iter (skus_to_delete res))"
    using e by (simp add: d delete_products_counts)
  have k: "length (iter (skus_to_delete res)) = card (skus_to_delete res)"
    using distinct_card [OF assms(3)] assms(2) by simp
  have g: "log (deletion res) = lookup_then_delete look del (iter (skus_to_delete res)) r"
    using e by (simp add: d delete_products_log)
  have "set (map Lookup (iter (skus_to_delete res))) = Lookup ` skus_to_delete res"
    using assms(2) by simp
  then show ?thesis using s l c k g fetch_current(1) [OF assms(1)] by simp
qed

theorem deletion_by_absence_witness:
  "(\<exists>res. fetch_total_product_counts float_digits mock_look mock_del sorted_list_of_set
             catalog_ABC store_ABC urls_BCD = Some res
      \<and> skus_to_delete res = {''A''}
      \<and> filter is_lookup (log (deletion res)) = [Lookup ''A'']
      \<and> log (deletion res) = [Lookup ''A'', Delete ''gid://shopify/Product/10'']
      \<and> successfully_deleted (deletion res) + failed_deletions (deletion res) = 1)
   \<and> (\<exists>res. fetch_total_product_counts float_digits mock_look
             (failing_del ''gid://shopify/Product/11'') sorted_list_of_set catalog_BC store_ABC []
             = Some res
      \<and> skus_to_delete res = {''A'', ''B'', ''C''}
      \<and> log (deletion res) =
          [Lookup ''A'', Lookup ''B'', Delete ''gid://shopify/Product/11'', Lookup ''C'',
           Delete ''gid://shopify/Product/12'']
      \<and> successfully_deleted (deletion res) = 1 \<and> failed_deletions (deletion res) = 2)"
proof -
  obtain res where
    r: "fetch_total_product_counts float_digits mock_look mock_del sorted_list_of_set catalog_ABC store_ABC
          urls_BCD = Some res"
    using fetch_returns [OF scrape_BCD, of float_digits mock_look mock_del sorted_list_of_set catalog_ABC store_ABC] by blast
  have s: "scraped res = \<lparr>current_jd_skus = {''D'', ''C'', ''B''}, failed_skus = {},
           all_product_data = [mk_product ''B'' ''100'' '''', mk_product ''C'' ''100'' '''',
                               mk_product ''D'' ''100'' '''']\<rparr>"
    using fetch_Some(1) [OF r] scrape_BCD by simp
  have t: "skus_to_delete res = {''A''}"
    using fetch_Some(2) [OF r] by (simp add: s to_delete_ABC)
  have d: "log (deletion res) = [Lookup ''A'', Delete ''gid://shopify/Product/10'']"
    using fetch_Some(3) [OF r] by (simp add: t delete_A)
  have h1: "set (sorted_list_of_set (skus_to_delete res)) = skus_to_delete res"
    by (simp add: t)
  have h2: "distinct (sorted_list_of_set (skus_to_delete res))"
    by (simp add: t)
  note da = deletion_by_absence [OF r h1 h2]
  have l: "filter is_lookup (log (deletion res)) = [Lookup ''A'']"
    using da [THEN conjunct2, THEN conjunct1] by (simp add: t)
  have n: "successfully_deleted (deletion res) + failed_deletions (deletion res) = 1"
    using da [THEN conjunct2, THEN conjunct2, THEN conjunct2, THEN conjunct1] by (simp add: t)
  from r t d l n have first: "\<exists>res. fetch_total_product_counts float_digits mock_look mock_del
             sorted_list_of_set catalog_ABC store_ABC urls_BCD = Some res
      \<and> skus_to_delete res = {''A''}
      \<and> filter is_lookup (log (deletion res)) = [Lookup ''A'']
      \<and> log (deletion res) = [Lookup ''A'', Delete ''gid://shopify/Product/10'']
      \<and> successfully_deleted (deletion res) + failed_deletions (deletion res) = 1"
    by blast
  have none: "scrape_urls [] \<lparr>current_jd_skus = {}, failed_skus = {}, all_product_data = []\<rparr>
      = Some \<lparr>current_jd_skus = {}, failed_skus = {}, all_product_data = []\<rparr>"
    by simp
  obtain res2 where
    r2: "fetch_total_product_counts float_digits mock_look (failing_del ''gid://shopify/Product/11'')
          sorted_list_of_set catalog_BC store_ABC [] = Some res2"
    using fetch_returns [OF none, of float_digits mock_look "failing_del ''gid://shopify/Product/11''"
        sorted_list_of_set catalog_BC store_ABC] by blast
  have s2: "scraped res2 = \<lparr>current_jd_skus = {}, failed_skus = {}, all_product_data = []\<rparr>"
    using fetch_Some(1) [OF r2] by simp
  have t2: "skus_to_delete res2 = {''A'', ''B'', ''C''}"
    using fetch_Some(2) [OF r2] by (simp add: s2 store_ABC_def)
  have d2: "deletion res2 =
      \<lparr>remote = [(''gid://shopify/Product/11'', ''B'')],
       log = [Lookup ''A'', Lookup ''B'', Delete ''gid://shopify/Product/11'', Lookup ''C'',
              Delete ''gid://shopify/Product/12''],
       successfully_deleted = 1, failed_deletions = 2\<rparr>"
    using fetch_Some(3) [OF r2] by (simp add: t2 iter_ABC delete_ABC_failing)
  have second: "\<exists>res. fetch_total_product_counts float_digits mock_look
             (failing_del ''gid://shopify/Product/11'') sorted_list_of_set catalog_BC store_ABC []
             = Some res
      \<and> skus_to_delete res = {''A'', ''B'', ''C''}
      \<and> log (deletion res) =
          [Lookup ''A'', Lookup ''B'', Delete ''gid://shopify/Product/11'', Lookup ''C'',
           Delete ''gid://shopify/Product/12'']
      \<and> successfully_deleted (deletion res) = 1 \<and> failed_deletions (deletion res) = 2"
    by (intro exI [of _ res2] conjI) (simp_all add: r2 t2 d2)
  from first second show ?thesis by (rule conjI)
qed







subsection \<open>Classification and encoding\<close>

text \<open>
  Claim C3. For every record of the product list: when its identifier is not a key of
  the store it is among the creates, and no lookup can change that; when it is a key and
  the lookup returns a match (a remote id, not empty) its update line, carrying that id,
  is among the updates and the record is not created; when it is a key and the lookup
  finds nothing (or fails) it is among the creates. The two lists are the decisions of
  the specification, in input order.
\<close>

theorem create_update_classification:
  assumes "generate_product_jsonl fl post product_list processed_skus = (file, ups, crs)"
    and "p \<in> set product_list"
  shows "(sku p \<notin> fst ` set processed_skus \<longrightarrow> p \<in> set crs \<and> sku p \<notin> sku_of ` set ups)
       \<and> (sku p \<in> fst ` set processed_skus \<and> post (sku p) = Data (i # others) \<and> i \<noteq> []
            \<longrightarrow> update_line fl i p \<in> set ups \<and> id_of (update_line fl i p) = Some i \<and> p \<notin> set crs)
       \<and> (sku p \<in> fst ` set processed_skus \<and> get_shopify_product_id post (sku p) = None
            \<longrightarrow> p \<in> set crs \<and> sku p \<notin> sku_of ` set ups)
       \<and> ups = update_lines fl post processed_skus product_list
       \<and> crs = filter (\<lambda>q. decide post processed_skus q = Create) product_list"
proof -
  have u: "ups = update_lines fl post processed_skus product_list"
    and c: "crs = filter (\<lambda>q. decide post processed_skus q = Create) product_list"
    using assms(1) by (simp_all add: generate_product_jsonl_eq)
  have cr: "p \<in> set crs \<and> sku p \<notin> sku_of ` set ups" if "decide post processed_skus p = Create"
    using that assms(2) create_not_in_updates [of post processed_skus p fl product_list]
    by (simp add: u c)
  have up: "update_line fl i p \<in> set ups \<and> id_of (update_line fl i p) = Some i \<and> p \<notin> set crs"
    if "decide post processed_skus p = Update i"
    using that assms(2) update_line_in_update_lines [of p product_list post processed_skus i fl]
    by (simp add: u c id_of_update_line)
  show ?thesis
    using cr up decide_unknown [of p processed_skus post]
      decide_found [of p processed_skus post i others]
      decide_missing [of p processed_skus post] u c
    by blast
qed

theorem create_update_classification_witness:
  "\<exists>file ups crs.
     generate_product_jsonl float_digits (mock_look catalog_B)
       [mk_product ''D'' ''100'' '''', mk_product ''B'' ''100'' '''', mk_product ''C'' ''100'' '''']
       store_BC = (file, ups, crs)
     \<and> mk_product ''D'' ''100'' '''' \<in> set crs
     \<and> update_line float_digits ''gid://shopify/Product/11'' (mk_product ''B'' ''100'' '''') \<in> set ups
     \<and> mk_product ''B'' ''100'' '''' \<notin> set crs
     \<and> mk_product ''C'' ''100'' '''' \<in> set crs"
proof -
  let ?xs = "[mk_product ''D'' ''100'' '''', mk_product ''B'' ''100'' '''', mk_product ''C'' ''100'' '''']"
  obtain out ups crs where
    g: "generate_product_jsonl float_digits (mock_look catalog_B) ?xs store_BC = (out, ups, crs)"
    using prod_cases3 by blast
  have md: "mk_product ''D'' ''100'' '''' \<in> set ?xs" by simp
  have kd: "sku (mk_product ''D'' ''100'' '''') \<notin> fst ` set store_BC"
    by (simp add: sku_mk_product store_BC_def)
  have d: "mk_product ''D'' ''100'' '''' \<in> set crs"
    using create_update_classification [OF g md] kd by blast
  have mb: "mk_product ''B'' ''100'' '''' \<in> set ?xs" by simp
  have kb: "sku (mk_product ''B'' ''100'' '''') \<in> fst ` set store_BC"
    by (simp add: sku_mk_product store_BC_def)
  have lb: "mock_look catalog_B (sku (mk_product ''B'' ''100'' '''')) = Data [''gid://shopify/Product/11'']"
    by (simp add: sku_mk_product mock_look_def catalog_B_def)
  have nb: "''gid://shopify/Product/11'' \<noteq> []" by simp
  have b: "update_line float_digits ''gid://shopify/Product/11'' (mk_product ''B'' ''100'' '''') \<in> set ups
      \<and> mk_product ''B'' ''100'' '''' \<notin> set crs"
    using create_update_classification [OF g mb, of "''gid://shopify/Product/11''" "[]"] kb lb nb
    by blast
  have mc: "mk_product ''C'' ''100'' '''' \<in> set ?xs" by simp
  have kc: "sku (mk_product ''C'' ''100'' '''') \<in> fst ` set store_BC"
    by (simp add: sku_mk_product store_BC_def)
  have lc: "get_shopify_product_id (mock_look catalog_B) (sku (mk_product ''C'' ''100'' '''')) = None"
    by (simp add: sku_mk_product mock_look_def catalog_B_def get_shopify_product_id_def)
  have c: "mk_product ''C'' ''100'' '''' \<in> set crs"
    using create_update_classification [OF g mc] kc lc by blast
  show ?thesis using g d b c by blast
qed

text \<open>
  Claim C6. The batch file is the update lines followed by one line per create, each
  part in its input order: its length is the sum of both; its first lines are the
  updates, which read back as the identifiers and remote ids of the records decided as
  updates, in input order; the rest are the creates, which carry no remote id and read
  back as the identifiers, titles and tag lists of the created records, in input order.
  The same holds of \<open>write_jsonl\<close> for any two sequences. Five records of which the
  second and the fourth are updates give five lines, the two updates first.
\<close>

theorem updates_precede_creates:
  assumes "generate_product_jsonl fl post product_list processed_skus = (file, ups, crs)"
  shows "file = write_jsonl fl ups crs
       \<and> write_jsonl fl ups crs = ups @ map (create_line fl) crs
       \<and> length file = length ups + length crs
       \<and> take (length ups) file = ups
       \<and> drop (length ups) file = map (create_line fl) crs
       \<and> (\<forall>l\<in>set (take (length ups) file). id_of l \<noteq> None)
       \<and> (\<forall>l\<in>set (drop (length ups) file). id_of l = None)
       \<and> ups = update_lines fl post processed_skus product_list
       \<and> crs = filter (\<lambda>q. decide post processed_skus q = Create) product_list
       \<and> map sku_of (take (length ups) file)
           = map sku (filter (\<lambda>q. decide post processed_skus q \<noteq> Create) product_list)
       \<and> map id_of (take (length ups) file)
           = map (\<lambda>q. case decide post processed_skus q of Create \<Rightarrow> None | Update i \<Rightarrow> Some i)
               (filter (\<lambda>q. decide post processed_skus q \<noteq> Create) product_list)
       \<and> map sku_of (drop (length ups) file) = map sku crs
       \<and> map title_of (drop (length ups) file) = map (\<lambda>q. Some (name q)) crs
       \<and> map tags_of (drop (length ups) file) = map (base_tags fl) crs
       \<and> length (write_jsonl fl us cs) = length us + length cs
       \<and> take (length us) (write_jsonl fl us cs) = us
       \<and> map sku_of (drop (length us) (write_jsonl fl us cs)) = map sku cs
       \<and> map title_of (drop (length us) (write_jsonl fl us cs)) = map (\<lambda>q. Some (name q)) cs
       \<and> map tags_of (drop (length us) (write_jsonl fl us cs)) = map (base_tags fl) cs"
proof -
  have u: "ups = update_lines fl post processed_skus product_list"
    and c: "crs = filter (\<lambda>q. decide post processed_skus q = Create) product_list"
    and f: "file = ups @ map (create_line fl) crs"
    using assms by (auto simp: generate_product_jsonl_eq)
  have a: "\<forall>l\<in>set ups. id_of l \<noteq> None"
    using update_lines_have_id [of _ fl post processed_skus product_list] u by blast
  have b: "\<forall>l\<in>set (map (create_line fl) crs). id_of l = None"
    by (auto simp: id_of_create_line)
  have rs: "map sku_of (map (create_line fl) xs) = map sku xs" for xs
    by (simp add: sku_of_create_line)
  have rt: "map title_of (map (create_line fl) xs) = map (\<lambda>q. Some (name q)) xs" for xs
    by (simp add: title_of_create_line)
  have rg: "map tags_of (map (create_line fl) xs) = map (base_tags fl) xs" for xs
    by (simp add: tags_of_create_line)
  have us: "map sku_of ups
      = map sku (filter (\<lambda>q. decide post processed_skus q \<noteq> Create) product_list)"
    unfolding u by (rule map_sku_of_update_lines)
  have ui: "map id_of ups
      = map (\<lambda>q. case decide post processed_skus q of Create \<Rightarrow> None | Update i \<Rightarrow> Some i)
          (filter (\<lambda>q. decide post processed_skus q \<noteq> Create) product_list)"
    unfolding u by (rule map_id_of_update_lines)
  have t: "take (length ups) file = ups" and d: "drop (length ups) file = map (create_line fl) crs"
    by (simp_all add: f)
  have w: "write_jsonl fl us cs = us @ map (create_line fl) cs"
    by (simp add: write_jsonl_def)
  have wt: "take (length us) (write_jsonl fl us cs) = us"
    and wd: "drop (length us) (write_jsonl fl us cs) = map (create_line fl) cs"
    by (simp_all add: w)
  have part1: "file = write_jsonl fl ups crs
       \<and> write_jsonl fl ups crs = ups @ map (create_line fl) crs
       \<and> length file = length ups + length crs
       \<and> take (length ups) file = ups
       \<and> drop (length ups) file = map (create_line fl) crs
       \<and> (\<forall>l\<in>set (take (length ups) file). id_of l \<noteq> None)
       \<and> (\<forall>l\<in>set (drop (length ups) file). id_of l = None)"
    using a b by (simp add: f write_jsonl_def)
  have part2: "map sku_of (take (length ups) file)
           = map sku (filter (\<lambda>q. decide post processed_skus q \<noteq> Create) product_list)
       \<and> map id_of (take (length ups) file)
           = map (\<lambda>q. case decide post processed_skus q of Create \<Rightarrow> None | Update i \<Rightarrow> Some i)
               (filter (\<lambda>q. decide post processed_skus q \<noteq> Create) product_list)
       \<and> map sku_of (drop (length ups) file) = map sku crs
       \<and> map title_of (drop (length ups) file) = map (\<lambda>q. Some (name q)) crs
       \<and> map tags_of (drop (length ups) file) = map (base_tags fl) crs"
    unfolding t d rs rt rg using us ui by simp
  have part3: "length (write_jsonl fl us cs) = length us + length cs
       \<and> take (length us) (write_jsonl fl us cs) = us
       \<and> map sku_of (drop (length us) (write_jsonl fl us cs)) = map sku cs
       \<and> map title_of (drop (length us) (write_jsonl fl us cs)) = map (\<lambda>q. Some (name q)) cs
       \<and> map tags_of (drop (length us) (write_jsonl fl us cs)) = map (base_tags fl) cs"
    unfolding wt wd rs rt rg by (simp add: w)
  from part1 u c part2 part3 show ?thesis by (intro conjI) (elim conjE, assumption)+
qed

theorem updates_precede_creates_witness:
  "\<exists>file ups crs.
     generate_product_jsonl float_digits (mock_look catalog_BC) five_products store_BC = (file, ups, crs)
     \<and> length file = 5
     \<and> take 2 file = [update_line float_digits ''gid://shopify/Product/11'' (mk_product ''B'' ''100'' ''''),
                       update_line float_digits ''gid://shopify/Product/12'' (mk_product ''C'' ''100'' '''')]
     \<and> drop 2 file = [create_line float_digits (mk_product ''N1'' ''100'' ''''),
                       create_line float_digits (mk_product ''N2'' ''100'' ''''),
                       create_line float_digits (mk_product ''N3'' ''100'' '''')]
     \<and> map sku_of file = [''B'', ''C'', ''N1'', ''N2'', ''N3'']
     \<and> map id_of file = [Some ''gid://shopify/Product/11'', Some ''gid://shopify/Product/12'',
                          None, None, None]
     \<and> map title_of file = [None, None, Some ''Shoe N1'', Some ''Shoe N2'', Some ''Shoe N3'']"
proof -
  obtain out ups crs where
    g: "generate_product_jsonl float_digits (mock_look catalog_BC) five_products store_BC = (out, ups, crs)"
    using prod_cases3 by blast
  have u: "update_lines float_digits (mock_look catalog_BC) store_BC five_products =
      [update_line float_digits ''gid://shopify/Product/11'' (mk_product ''B'' ''100'' ''''),
       update_line float_digits ''gid://shopify/Product/12'' (mk_product ''C'' ''100'' '''')]"
    by (simp add: update_lines_def decide_def five_products_def sku_mk_product store_BC_def
        catalog_BC_def mock_look_def get_shopify_product_id_def)
  have c: "filter (\<lambda>q. decide (mock_look catalog_BC) store_BC q = Create) five_products =
      [mk_product ''N1'' ''100'' '''', mk_product ''N2'' ''100'' '''', mk_product ''N3'' ''100'' '''']"
    by (simp add: decide_def five_products_def sku_mk_product store_BC_def
        catalog_BC_def mock_look_def get_shopify_product_id_def)
  note t = updates_precede_creates [OF g, of "[]" "[]"]
  note t7 = t [THEN conjunct2, THEN conjunct2, THEN conjunct2, THEN conjunct2, THEN conjunct2,
      THEN conjunct2, THEN conjunct2]
  have f: "out = write_jsonl float_digits ups crs"
    using t by (rule conjunct1)
  have u': "ups = update_lines float_digits (mock_look catalog_BC) store_BC five_products"
    using t7 by (rule conjunct1)
  have c': "crs = filter (\<lambda>q. decide (mock_look catalog_BC) store_BC q = Create) five_products"
    using t7 [THEN conjunct2] by (rule conjunct1)
  have nm: "name (mk_product s a b) = ''Shoe '' @ s" for s a b
    by (simp add: mk_product_def)
  have k: "length out = 5
      \<and> take 2 out = [update_line float_digits ''gid://shopify/Product/11'' (mk_product ''B'' ''100'' ''''),
                       update_line float_digits ''gid://shopify/Product/12'' (mk_product ''C'' ''100'' '''')]
      \<and> drop 2 out = [create_line float_digits (mk_product ''N1'' ''100'' ''''),
                       create_line float_digits (mk_product ''N2'' ''100'' ''''),
                       create_line float_digits (mk_product ''N3'' ''100'' '''')]
      \<and> map sku_of out = [''B'', ''C'', ''N1'', ''N2'', ''N3'']
      \<and> map id_of out = [Some ''gid://shopify/Product/11'', Some ''gid://shopify/Product/12'',
                          None, None, None]
      \<and> map title_of out = [None, None, Some ''Shoe N1'', Some ''Shoe N2'', Some ''Shoe N3'']"
    unfolding f u' c' u c write_jsonl_def
    by (simp add: sku_of_update_line sku_of_create_line id_of_update_line id_of_create_line
        title_of_update_line title_of_create_line sku_mk_product nm)
  show ?thesis
    by (rule exI [of _ out], rule exI [of _ ups], rule exI [of _ crs], rule conjI [OF g k])
qed

text \<open>
  Claim C7, as amended. The gender, product type and brand of a record are copied into
  its tag list, so a record whose brand is the word \<open>discounted\<close> carries the tag
  whatever its prices. For every other record, update or create, and whatever strings its
  prices are, the tag list contains \<open>discounted\<close> exactly when \<open>float\<close> converts both
  prices, both doubles are greater than 0 and the previous price is the greater. \<open>fl\<close>
  is \<open>float\<close>, of which only \<open>float('')\<close> raising is used: the code converts \<open>0\<close> in
  place of an empty price, which is not positive either.
\<close>

theorem discount_tag:
  assumes "fl [] = None"
    and "gender p \<noteq> ''discounted''" and "productType p \<noteq> ''discounted''"
    and "brand p \<noteq> ''discounted''"
  shows "(''discounted'' \<in> set (tags_of (update_line fl i p))) =
           (\<exists>a b. fl (price p) = Some a \<and> fl (previousPrice p) = Some b
                  \<and> float_gt a (Finite 0) \<and> float_gt b (Finite 0) \<and> float_gt b a)
       \<and> (''discounted'' \<in> set (tags_of (create_line fl p))) =
           (\<exists>a b. fl (price p) = Some a \<and> fl (previousPrice p) = Some b
                  \<and> float_gt a (Finite 0) \<and> float_gt b (Finite 0) \<and> float_gt b a)"
  using discounted_in_base_tags [OF assms(2,3,4), of fl] is_discounted_iff [of fl p] assms(1)
  by (simp add: tags_of_update_line tags_of_create_line)

theorem discount_tag_witness:
  "''discounted'' \<in> set (tags_of (create_line float_digits (mk_product ''A'' ''100'' ''150'')))
   \<and> ''discounted'' \<in> set (tags_of (update_line float_digits ''gid://shopify/Product/1''
                                    (mk_product ''A'' ''100'' ''150'')))
   \<and> ''discounted'' \<notin> set (tags_of (create_line float_digits (mk_product ''A'' ''100'' [])))
   \<and> ''discounted'' \<notin> set (tags_of (create_line float_digits (mk_product ''A'' ''100'' ''100'')))
   \<and> ''discounted'' \<notin> set (tags_of (create_line float_digits (mk_product ''A'' ''150'' ''100'')))"
proof -
  have g: "gender (mk_product s a b) \<noteq> ''discounted''"
    "productType (mk_product s a b) \<noteq> ''discounted''"
    "brand (mk_product s a b) \<noteq> ''discounted''" for s a b
    by (simp_all add: mk_product_def)
  have pr: "price (mk_product s a b) = a" "previousPrice (mk_product s a b) = b" for s a b
    by (simp_all add: mk_product_def)
  note e = float_digits_empty
  show ?thesis
    using discount_tag [of float_digits "mk_product ''A'' ''100'' ''150''" "''gid://shopify/Product/1''"]
      discount_tag [of float_digits "mk_product ''A'' ''100'' []" "''gid://shopify/Product/1''"]
      discount_tag [of float_digits "mk_product ''A'' ''100'' ''100''" "''gid://shopify/Product/1''"]
      discount_tag [of float_digits "mk_product ''A'' ''150'' ''100''" "''gid://shopify/Product/1''"]
    by (simp add: g pr e float_digits_100 float_digits_150)
qed

text \<open>
  The claim as stated fails for the record whose brand is \<open>discounted\<close>, price 150
  and previous price 100: the tag is there, with any \<open>float\<close>, and the condition is
  not met.
\<close>

theorem discount_tag_counterexample:
  "(\<forall>fl. ''discounted'' \<in> set (tags_of (create_line fl brand_named_discounted)))
   \<and> price brand_named_discounted = ''150'' \<and> previousPrice brand_named_discounted = ''100''
   \<and> \<not> (\<exists>a b. float_digits (price brand_named_discounted) = Some a
             \<and> float_digits (previousPrice brand_named_discounted) = Some b
             \<and> float_gt a (Finite 0) \<and> float_gt b (Finite 0) \<and> float_gt b a)"
  by (simp add: tags_of_create_line base_tags_def Let_def brand_named_discounted_def
      mk_product_def float_digits_100 float_digits_150)

subsection \<open>The admission gate\<close>

text \<open>
  Claim C5. When the first \<open>k\<close> status queries report an active job (RUNNING or
  CREATED) and the next reports no job or a finished one (COMPLETED, FAILED, CANCELED),
  the wait returns, after exactly \<open>k\<close> cycles of one query and one sleep of the poll
  interval and one last query; \<open>k = 0\<close> is the immediate return, and no \<open>k\<close> is
  too large. \<open>run_bulk_product_set_with_queue\<close> then sends the submission, once, after
  the wait. The fixture of three active reports and a completed one gives three cycles.
\<close>

theorem admission_gate:
  assumes "\<forall>i<k. is_active (replies i)" and "slot_free (replies k)"
  shows "wait_for_bulk_operation_completion replies interval 0 [] =
           Some (cycles k interval @ [StatusQuery])
       \<and> length (filter (\<lambda>e. e = Sleep interval) (cycles k interval @ [StatusQuery])) = k
       \<and> (\<exists>result. run_bulk_product_set_with_queue replies submit_reply path =
             Some (cycles k 120 @ [StatusQuery, Submit path], result))
       \<and> length (filter (\<lambda>e. e = Submit path) (cycles k 120 @ [StatusQuery, Submit path])) = 1"
proof -
  have w: "wait_for_bulk_operation_completion replies iv 0 [] = Some (cycles k iv @ [StatusQuery])" for iv
    using wait_cycles [of k replies 0 iv "[]"] assms by simp
  have s: "length (filter (\<lambda>e. e = Sleep iv) (cycles k iv)) = k" for iv
    by (induction k) (simp_all add: cycles_def)
  have t: "filter (\<lambda>e. e = Submit path) (cycles k iv) = []" for iv
    by (induction k) (simp_all add: cycles_def)
  show ?thesis
    by (simp add: w s t run_bulk_product_set_with_queue_def)
qed

theorem admission_gate_witness:
  "wait_for_bulk_operation_completion mock_replies 120 0 [] =
     Some [StatusQuery, Sleep 120, StatusQuery, Sleep 120, StatusQuery, Sleep 120, StatusQuery]
   \<and> (\<exists>result. run_bulk_product_set_with_queue mock_replies (Data ()) ''staged/key'' =
         Some ([StatusQuery, Sleep 120, StatusQuery, Sleep 120, StatusQuery, Sleep 120,
                StatusQuery, Submit ''staged/key''], result))"
proof -
  have a: "\<forall>i<3. is_active (mock_replies i)"
    by (simp add: is_active_def mock_replies_def check_bulk_operation_status_def)
  have f: "slot_free (mock_replies 3)"
    by (simp add: slot_free_def mock_replies_def check_bulk_operation_status_def)
  have c: "cycles 3 120 = [StatusQuery, Sleep 120, StatusQuery, Sleep 120, StatusQuery, Sleep 120]"
    by (simp add: cycles_def numeral_3_eq_3)
  show ?thesis
    using admission_gate [of 3 mock_replies 120 "Data ()" "''staged/key''"] a f by (simp add: c)
qed

text \<open>
  Claim C10. A status query that fails (request error, another exception, a body with
  errors) gives the status checker's value for no current job, so the wait returns at
  once, as for an empty queue, and the submission is sent, whatever the remote would have
  reported next. In the fixture a job is running when the first query fails.
\<close>

theorem failed_query_frees_slot:
  assumes "replies 0 = RequestError \<or> replies 0 = UnexpectedError \<or> replies 0 = GraphQLErrors"
  shows "check_bulk_operation_status (replies 0) = check_bulk_operation_status (Data None)
       \<and> wait_for_bulk_operation_completion replies interval 0 [] = Some [StatusQuery]
       \<and> wait_for_bulk_operation_completion (\<lambda>n. Data None) interval 0 [] = Some [StatusQuery]
       \<and> (\<exists>result. run_bulk_product_set_with_queue replies submit_reply path =
             Some ([StatusQuery, Submit path], result))"
proof -
  have n: "check_bulk_operation_status (replies 0) = None"
    using assms by (auto simp: check_bulk_operation_status_def)
  have f: "slot_free (replies 0)" by (simp add: slot_free_def n)
  have g: "slot_free ((\<lambda>n. Data None) (0::nat))"
    by (simp add: slot_free_def check_bulk_operation_status_def)
  have w: "wait_for_bulk_operation_completion replies iv 0 [] = Some [StatusQuery]" for iv
    using wait_free [of replies 0 iv "[]"] f by simp
  have v: "wait_for_bulk_operation_completion (\<lambda>n. Data None) interval 0 [] = Some [StatusQuery]"
    using wait_free [of "\<lambda>n. Data None" 0 interval "[]"] g by simp
  have e: "check_bulk_operation_status (Data None) = None"
    by (simp add: check_bulk_operation_status_def)
  show ?thesis
    by (simp add: w v n e run_bulk_product_set_with_queue_def)
qed

theorem failed_query_frees_slot_witness:
  "is_active (failing_replies 1)
   \<and> wait_for_bulk_operation_completion failing_replies 120 0 [] = Some [StatusQuery]
   \<and> (\<exists>result. run_bulk_product_set_with_queue failing_replies (Data ()) ''staged/key'' =
         Some ([StatusQuery, Submit ''staged/key''], result))"
proof -
  have h: "failing_replies 0 = RequestError \<or> failing_replies 0 = UnexpectedError
           \<or> failing_replies 0 = GraphQLErrors"
    by (simp add: failing_replies_def)
  have a: "is_active (failing_replies 1)"
    by (simp add: failing_replies_def is_active_def check_bulk_operation_status_def)
  show ?thesis
    using failed_query_frees_slot [of failing_replies 120 "Data ()" "''staged/key''"] h a by simp
qed

subsection \<open>The duplicate resolver\<close>



subsection \<open>The confirmation gate of the bulk deleter\<close>

text \<open>
  Claim C9. Whatever the input file holds, a confirmation other than the exact string
  DELETE ends \<open>delete_products_from_file\<close> with the world as it was: no delete
  request sent, the catalog and the log file unchanged.
\<close>

theorem confirmation_gate:
  assumes "confirmation \<noteq> ''DELETE''"
  shows "delete_products_from_file del input_file confirmation w = w
       \<and> sent (delete_products_from_file del input_file confirmation w) = sent w
       \<and> shop (delete_products_from_file del input_file confirmation w) = shop w
       \<and> log_file (delete_products_from_file del input_file confirmation w) = log_file w"
proof -
  have "delete_products_from_file del input_file confirmation w = w"
    using assms by (simp add: delete_products_from_file_def split: file_read.splits)
  then show ?thesis by simp
qed

theorem confirmation_gate_witness:
  "delete_products_from_file mock_del (Loaded [one_duplicate]) ''delete'' world0 = world0
   \<and> sent (delete_products_from_file mock_del (Loaded [one_duplicate]) ''delete'' world0) = []
   \<and> log_file (delete_products_from_file mock_del (Loaded [one_duplicate]) ''delete'' world0) = None"
proof -
  have h: "''delete'' \<noteq> ''DELETE''" by simp
  show ?thesis
    using confirmation_gate [of "''delete''" mock_del "Loaded [one_duplicate]" world0] h
    by (simp add: world0_def)
qed

text \<open>
  With the exact string the same run does send the request and write the log, so the
  gate is what holds them back.
\<close>

lemma confirmed_run_deletes:
  "sent (delete_products_from_file mock_del (Loaded [one_duplicate]) ''DELETE'' world0)
     = [''gid://shopify/Product/1'']
   \<and> shop (delete_products_from_file mock_del (Loaded [one_duplicate]) ''DELETE'' world0)
     = [(''gid://shopify/Product/2'', ''1'')]
   \<and> log_file (delete_products_from_file mock_del (Loaded [one_duplicate]) ''DELETE'' world0) \<noteq> None"
  by (simp add: delete_products_from_file_def world0_def one_duplicate_def mock_del_def
      delete_product_def tick_def Let_def)

end
